theory Spec2Isabelle
  imports Complex_Main "HOL-Library.Sublist"
begin

section \<open>Python values, errors and slicing\<close>

text \<open>
  The exceptions the modelled code can raise. \<open>OSError\<close> carries the path that
  could not be opened. \<open>ExternalError\<close>, with its message, stands for any
  exception raised inside a call into TensorFlow, Keras, h5py or the power-flow
  simulator, whose kernels are outside this repository.
\<close>

datatype py_error =
    NameError string
  | AttributeError string
  | ValueError
  | IndexError
  | KeyError string
  | OSError string
  | ExternalError string
  | UnicodeEncodeError

text \<open>
  A two-dimensional numpy array: its shape and its rows. Floats are read as the
  real numbers they denote.
\<close>

record mat =
  nrows :: nat
  ncols :: nat
  rows :: "real list list"

definition wf_mat :: "mat \<Rightarrow> bool" where
  "wf_mat A = (length (rows A) = nrows A \<and> list_all (\<lambda>r. length r = ncols A) (rows A))"

definition mk_mat :: "nat \<Rightarrow> real list list \<Rightarrow> mat" where
  "mk_mat c rs = \<lparr>nrows = length rs, ncols = c, rows = rs\<rparr>"

text \<open>\<open>int(x)\<close> of a float truncates towards zero.\<close>

definition py_int :: "real \<Rightarrow> int" where
  "py_int x = (if 0 \<le> x then \<lfloor>x\<rfloor> else \<lceil>x\<rceil>)"

text \<open>
  A slice bound of \<open>xs[lo:hi]\<close>: a negative bound counts from the end, and every
  bound is clamped to the list.
\<close>

definition slice_bound :: "nat \<Rightarrow> int \<Rightarrow> nat" where
  "slice_bound n i = (if i < 0 then nat (max 0 (int n + i)) else min n (nat i))"

definition py_slice :: "'a list \<Rightarrow> int \<Rightarrow> int \<Rightarrow> 'a list" where
  "py_slice xs lo hi = drop (slice_bound (length xs) lo) (take (slice_bound (length xs) hi) xs)"

definition py_slice_from :: "'a list \<Rightarrow> int \<Rightarrow> 'a list" where
  "py_slice_from xs lo = drop (slice_bound (length xs) lo) xs"

definition mat_slice :: "mat \<Rightarrow> int \<Rightarrow> int \<Rightarrow> mat" where
  "mat_slice A lo hi = mk_mat (ncols A) (py_slice (rows A) lo hi)"

definition mat_slice_from :: "mat \<Rightarrow> int \<Rightarrow> mat" where
  "mat_slice_from A lo = mk_mat (ncols A) (py_slice_from (rows A) lo)"

section \<open>Splitting the profiles (both regression constructors)\<close>

text \<open>
  \<open>_split_index = int(train_percentage * len(load_profile))\<close>; the train part is
  \<open>[0:_split_index]\<close> and the test part is \<open>[_split_index+1:]\<close>, for the load
  profile and the voltage profile alike.
\<close>

definition split_index :: "real \<Rightarrow> mat \<Rightarrow> int" where
  "split_index train_percentage load_profile = py_int (train_percentage * real (nrows load_profile))"

record split =
  s_train_data :: mat
  s_train_labels :: mat
  s_test_data :: mat
  s_test_labels :: mat

definition split_profiles :: "real \<Rightarrow> mat \<Rightarrow> mat \<Rightarrow> split" where
  "split_profiles train_percentage load_profile voltage_profile =
     (let s = split_index train_percentage load_profile in
      \<lparr>s_train_data = mat_slice load_profile 0 s,
       s_train_labels = mat_slice voltage_profile 0 s,
       s_test_data = mat_slice_from load_profile (s + 1),
       s_test_labels = mat_slice_from voltage_profile (s + 1)\<rparr>)"

section \<open>Matrices (the TensorFlow and numpy calls of the normal equation)\<close>

definition entry :: "mat \<Rightarrow> nat \<Rightarrow> nat \<Rightarrow> real" where
  "entry A i j = rows A ! i ! j"

definition mat_of :: "nat \<Rightarrow> nat \<Rightarrow> (nat \<Rightarrow> nat \<Rightarrow> real) \<Rightarrow> mat" where
  "mat_of m n f = \<lparr>nrows = m, ncols = n, rows = map (\<lambda>i. map (f i) [0..<n]) [0..<m]\<rparr>"

text \<open>\<open>tf.transpose(x)\<close> of a rank-2 tensor.\<close>

definition tf_transpose :: "mat \<Rightarrow> mat" where
  "tf_transpose A = mat_of (ncols A) (nrows A) (\<lambda>i j. entry A j i)"

text \<open>The product of two matrices whose inner dimensions agree.\<close>

definition mm :: "mat \<Rightarrow> mat \<Rightarrow> mat" where
  "mm A B = mat_of (nrows A) (ncols B) (\<lambda>i j. \<Sum>k\<leftarrow>[0..<ncols A]. entry A i k * entry B k j)"

text \<open>\<open>tf.matmul(a, b)\<close>: shape inference rejects operands whose inner dimensions differ.\<close>

definition tf_matmul :: "mat \<Rightarrow> mat \<Rightarrow> py_error + mat" where
  "tf_matmul A B = (if ncols A = nrows B then Inr (mm A B) else Inl ValueError)"

text \<open>Sequencing of calls that may raise: the first exception ends the sequence.\<close>

definition ebind :: "py_error + 'a \<Rightarrow> ('a \<Rightarrow> py_error + 'b) \<Rightarrow> py_error + 'b" where
  "ebind m f = (case m of Inl e \<Rightarrow> Inl e | Inr x \<Rightarrow> f x)"

text \<open>
  \<open>np.c_[np.ones((m, 1)), data]\<close>: a leading column of ones; numpy refuses to
  concatenate blocks with different numbers of rows.
\<close>

definition add_bias_column :: "nat \<Rightarrow> mat \<Rightarrow> py_error + mat" where
  "add_bias_column m d =
     (if nrows d = m then Inr (mk_mat (Suc (ncols d)) (map (\<lambda>r. 1 # r) (rows d)))
      else Inl ValueError)"


section \<open>Programs with state and exceptions\<close>

text \<open>
  A method is a function from the state before the call to its outcome (an
  exception or a return value) and the state after it: what a method changed
  before it raised stays changed.
\<close>

type_synonym ('s, 'a) prog = "'s \<Rightarrow> (py_error + 'a) \<times> 's"

definition sreturn :: "'a \<Rightarrow> ('s, 'a) prog" where
  "sreturn x s = (Inr x, s)"

definition sraise :: "py_error \<Rightarrow> ('s, 'a) prog" where
  "sraise e s = (Inl e, s)"

definition slift :: "py_error + 'a \<Rightarrow> ('s, 'a) prog" where
  "slift r s = (r, s)"

definition sbind :: "('s, 'a) prog \<Rightarrow> ('a \<Rightarrow> ('s, 'b) prog) \<Rightarrow> ('s, 'b) prog" where
  "sbind m f s = (case m s of (Inl e, s') \<Rightarrow> (Inl e, s') | (Inr x, s') \<Rightarrow> f x s')"

definition smodify :: "('s \<Rightarrow> 's) \<Rightarrow> ('s, unit) prog" where
  "smodify f s = (Inr (), f s)"

definition sget :: "('s \<Rightarrow> 'a) \<Rightarrow> ('s, 'a) prog" where
  "sget f s = (Inr (f s), s)"

text \<open>\<open>try: m except BaseException as ex: h\<close>: every exception of \<open>m\<close> goes to \<open>h\<close>.\<close>

definition stry :: "('s, 'a) prog \<Rightarrow> (py_error \<Rightarrow> ('s, 'a) prog) \<Rightarrow> ('s, 'a) prog" where
  "stry m h s = (case m s of (Inl e, s') \<Rightarrow> h e s' | (Inr x, s') \<Rightarrow> (Inr x, s'))"

text \<open>Reading an attribute that was never assigned raises \<open>AttributeError\<close>.\<close>

definition attr :: "string \<Rightarrow> ('s \<Rightarrow> 'a option) \<Rightarrow> ('s, 'a) prog" where
  "attr name f s = (case f s of None \<Rightarrow> (Inl (AttributeError name), s) | Some x \<Rightarrow> (Inr x, s))"

section \<open>The world outside the process\<close>

text \<open>
  Files are text files, HDF5 files holding named datasets, or HDF5 files holding
  the weights of a Keras model (of a type \<open>'w\<close> owned by Keras). \<open>writable\<close>
  says which paths can be opened for writing, \<open>now_str\<close> is what
  \<open>str(datetime.datetime.now())\<close> returns, \<open>clock\<close> what \<open>time()\<close> returns, and
  \<open>trace\<close> lists, oldest first, the calls made into the ML framework, the plotting
  library and the file system. \<open>encodes\<close> says which texts beyond ASCII the
  encoding of the console can write, and \<open>lineno\<close> is the line of
  \<open>regressiontools.py\<close> being executed, as far as a traceback is read. What is
  printed is not recorded.
\<close>

datatype layer = DenseInput int nat | DenseRelu int | Dense nat | Dropout real

datatype 'w pyfile = TextFile string | H5Datasets "(string \<times> mat) list" | H5Weights 'w

datatype event =
    KerasCompile "layer list" real
  | KerasFit mat mat int bool
  | KerasEvaluate mat mat
  | KerasPredict mat
  | TfEval
  | PlotShow
  | FileWrite string
  | FileRead string

record 'w world =
  files :: "string \<rightharpoonup> 'w pyfile"
  writable :: "string \<Rightarrow> bool"
  now_str :: string
  clock :: real
  trace :: "event list"
  encodes :: "string \<Rightarrow> bool"
  lineno :: nat

definition log_event :: "event \<Rightarrow> 'w world \<Rightarrow> 'w world" where
  "log_event e w = w\<lparr>trace := trace w @ [e]\<rparr>"

text \<open>Opening a path for writing and storing the content written before the file is closed.\<close>

definition write_file :: "string \<Rightarrow> 'w pyfile \<Rightarrow> 'w world \<Rightarrow> py_error + 'w world" where
  "write_file path content w =
     (if writable w path
      then Inr (log_event (FileWrite path) (w\<lparr>files := (files w)(path \<mapsto> content)\<rparr>))
      else Inl (OSError path))"

definition read_file :: "string \<Rightarrow> 'w world \<Rightarrow> py_error + 'w pyfile" where
  "read_file path w = (case files w path of None \<Rightarrow> Inl (OSError path) | Some f \<Rightarrow> Inr f)"

text \<open>\<open>s.replace(a, b)\<close> for single characters \<open>a\<close> and \<open>b\<close>.\<close>

definition replace_char :: "char \<Rightarrow> char \<Rightarrow> string \<Rightarrow> string" where
  "replace_char a b s = map (\<lambda>c. if c = a then b else c) s"

definition lookup_tables :: string where
  "lookup_tables = ''./data/lookup_tables/''"


text \<open>An operation on the world alone, run in a state that pairs the world with an object.\<close>

definition on_world :: "('w world \<Rightarrow> py_error + 'w world) \<Rightarrow> ('w world \<times> 'o, unit) prog" where
  "on_world f s = (case f (fst s) of Inl e \<Rightarrow> (Inl e, s) | Inr w' \<Rightarrow> (Inr (), (w', snd s)))"

definition log_call :: "event \<Rightarrow> ('w world \<times> 'o, unit) prog" where
  "log_call e = smodify (\<lambda>s. (log_event e (fst s), snd s))"

definition read_path :: "string \<Rightarrow> ('w world \<times> 'o, 'w pyfile) prog" where
  "read_path path = sbind (log_call (FileRead path)) (\<lambda>_. sbind (sget fst) (\<lambda>w. slift (read_file path w)))"

text \<open>What \<open>loadModel\<close> returns: the loaded value, or Python's \<open>False\<close>.\<close>

datatype 'a load_result = Loaded 'a | PyFalse

text \<open>
  \<open>print(t)\<close>: ASCII text can always be written; other text raises
  \<open>UnicodeEncodeError\<close> unless the console's encoding has it. The prints of the
  module outside the two \<open>loadModel\<close> methods write numbers and fixed ASCII text
  (the message of Keras about a refused dropout rate is taken as such) and are
  left out.
\<close>

definition is_ascii :: "char \<Rightarrow> bool" where
  "is_ascii c = (\<not> digit7 c)"

definition printable :: "'w world \<Rightarrow> string \<Rightarrow> bool" where
  "printable w t = (list_all is_ascii t \<or> encodes w t)"

definition py_print :: "string \<Rightarrow> ('w world \<times> 'o, unit) prog" where
  "py_print t s = (if printable (fst s) t then (Inr (), s) else (Inl UnicodeEncodeError, s))"

definition at_line :: "nat \<Rightarrow> ('w world \<times> 'o, unit) prog" where
  "at_line n = smodify (\<lambda>s. ((fst s)\<lparr>lineno := n\<rparr>, snd s))"

text \<open>
  \<open>str(ex)\<close> of an exception: it names the name, key or path the exception is
  about; an exception of an external library brings its own message.
\<close>

definition quoted :: "string \<Rightarrow> string" where
  "quoted t = [CHR 0x27] @ t @ [CHR 0x27]"

fun exc_str :: "py_error \<Rightarrow> string" where
  "exc_str (NameError n) = ''name '' @ quoted n @ '' is not defined''"
| "exc_str (AttributeError n) = ''object has no attribute '' @ quoted n"
| "exc_str ValueError = ''invalid value''"
| "exc_str IndexError = ''index out of range''"
| "exc_str (KeyError key) = quoted key"
| "exc_str (OSError path) = ''[Errno 2] No such file or directory: '' @ quoted path"
| "exc_str (ExternalError t) = t"
| "exc_str UnicodeEncodeError = ''codec cannot encode character''"

text \<open>The decimal digits of a line number.\<close>

fun digits :: "nat \<Rightarrow> string" where
  "digits n =
     (if n < 10 then [char_of (48 + n)] else digits (n div 10) @ [char_of (48 + n mod 10)])"

declare digits.simps [simp del]

text \<open>
  The handler of both \<open>loadModel\<close> methods: it prints the line of the traceback
  and the text of the exception, then returns \<open>False\<close>. An exception raised by
  this print is not caught by anything.
\<close>

definition failure_message :: "nat \<Rightarrow> py_error \<Rightarrow> string" where
  "failure_message n ex = ''Line '' @ digits n @ '' - lookup table loading failed. '' @ exc_str ex"

definition loading_failed :: "py_error \<Rightarrow> ('w world \<times> 'o, 'a load_result) prog" where
  "loading_failed ex =
     sbind (sget (lineno \<circ> fst)) (\<lambda>n.
     sbind (py_print (failure_message n ex)) (\<lambda>_.
     sreturn PyFalse))"

section \<open>ANNRegression\<close>

text \<open>
  The calls into Keras and the json module, whose code is outside the repository.
  Each may raise. \<open>k_compile\<close> stands for building a \<open>Sequential\<close> model from
  the layers and compiling it with an RMSProp optimiser of the given learning
  rate; \<open>k_dropout_ok\<close> says whether \<open>Dropout(rate)\<close> accepts the rate.
\<close>

record ('m, 'h, 'w) keras =
  k_compile :: "layer list \<Rightarrow> real \<Rightarrow> py_error + 'm"
  k_dropout_ok :: "real \<Rightarrow> bool"
  k_fit :: "'m \<Rightarrow> mat \<Rightarrow> mat \<Rightarrow> int \<Rightarrow> nat option \<Rightarrow> py_error + 'm \<times> 'h"
  k_evaluate :: "'m \<Rightarrow> mat \<Rightarrow> mat \<Rightarrow> py_error + real \<times> real"
  k_predict :: "'m \<Rightarrow> mat \<Rightarrow> py_error + mat"
  k_to_json :: "'m \<Rightarrow> py_error + string"
  k_json_dump :: "string \<Rightarrow> string"
  k_save_weights :: "'m \<Rightarrow> py_error + 'w"
  k_model_from_json :: "string \<Rightarrow> py_error + 'm"
  k_load_weights :: "'m \<Rightarrow> 'w \<Rightarrow> py_error + 'm"

text \<open>The attributes of an \<open>ANNRegression\<close> object; \<open>None\<close> is an attribute not set.\<close>

record ('m, 'h) ann =
  train_data :: "mat option"
  train_labels :: "mat option"
  test_data :: "mat option"
  test_labels :: "mat option"
  model :: "'m option"
  history :: "'h option"
  model_name :: "string option"

definition ann_new :: "('m, 'h) ann" where
  "ann_new = \<lparr>train_data = None, train_labels = None, test_data = None, test_labels = None,
     model = None, history = None, model_name = None\<rparr>"

text \<open>The arguments of \<open>ANNRegression.__init__\<close> and their defaults.\<close>

record ann_args =
  load_profile :: "mat option"
  voltage_profile :: "mat option"
  train_percentage :: real
  learning_rate :: real
  no_hidden_layers :: int
  layer_density :: int
  dropout :: "real option"
  no_epochs :: int
  early_stop :: bool
  save_model :: bool
  plot_results :: bool

definition ann_defaults :: ann_args where
  "ann_defaults = \<lparr>load_profile = None, voltage_profile = None, train_percentage = 7 / 10,
     learning_rate = 1 / 1000, no_hidden_layers = 1, layer_density = 64, dropout = None,
     no_epochs = 1000, early_stop = False, save_model = False, plot_results = False\<rparr>"

text \<open>
  One round of the loop \<open>for _ in range(1, no_hidden_layers)\<close> of \<open>buildModel\<close>: a
  dropout layer when \<open>dropout\<close> is truthy and Keras accepts it (its exception is
  caught and printed), then a dense layer.
\<close>

definition hidden_layer :: "('m, 'h, 'w) keras \<Rightarrow> int \<Rightarrow> real option \<Rightarrow> layer list" where
  "hidden_layer K density dr =
     (case dr of
        None \<Rightarrow> []
      | Some r \<Rightarrow> (if r \<noteq> 0 \<and> k_dropout_ok K r then [Dropout r] else [])) @ [DenseRelu density]"

definition ANNRegression_buildModel ::
  "('m, 'h, 'w) keras \<Rightarrow> real \<Rightarrow> int \<Rightarrow> int \<Rightarrow> real option \<Rightarrow> ('w world \<times> ('m, 'h) ann, unit) prog" where
  "ANNRegression_buildModel K lr hidden density dr =
     sbind (attr ''train_data'' (train_data \<circ> snd)) (\<lambda>td.
     sbind (attr ''train_labels'' (train_labels \<circ> snd)) (\<lambda>tl.
     sbind (sreturn (DenseInput density (ncols td)
              # concat (replicate (nat (hidden - 1)) (hidden_layer K density dr))
              @ [Dense (ncols tl)])) (\<lambda>layers.
     sbind (log_call (KerasCompile layers lr)) (\<lambda>_.
     sbind (slift (k_compile K layers lr)) (\<lambda>m.
     smodify (\<lambda>s. (fst s, (snd s)\<lparr>model := Some m\<rparr>)))))))"

definition ANNRegression_trainModel ::
  "('m, 'h, 'w) keras \<Rightarrow> int \<Rightarrow> bool \<Rightarrow> nat \<Rightarrow> ('w world \<times> ('m, 'h) ann, unit) prog" where
  "ANNRegression_trainModel K epochs stop patience =
     sbind (attr ''model'' (model \<circ> snd)) (\<lambda>m.
     sbind (attr ''train_data'' (train_data \<circ> snd)) (\<lambda>td.
     sbind (attr ''train_labels'' (train_labels \<circ> snd)) (\<lambda>tl.
     sbind (log_call (KerasFit td tl epochs stop)) (\<lambda>_.
     sbind (slift (k_fit K m td tl epochs (if stop then Some patience else None))) (\<lambda>r.
     smodify (\<lambda>s. (fst s, (snd s)\<lparr>model := Some (fst r), history := Some (snd r)\<rparr>)))))))"

definition ANNRegression_evaluateModel ::
  "('m, 'h, 'w) keras \<Rightarrow> ('w world \<times> ('m, 'h) ann, real) prog" where
  "ANNRegression_evaluateModel K =
     sbind (attr ''model'' (model \<circ> snd)) (\<lambda>m.
     sbind (attr ''test_data'' (test_data \<circ> snd)) (\<lambda>xd.
     sbind (attr ''test_labels'' (test_labels \<circ> snd)) (\<lambda>xl.
     sbind (log_call (KerasEvaluate xd xl)) (\<lambda>_.
     sbind (slift (k_evaluate K m xd xl)) (\<lambda>r.
     sreturn (sqrt (fst r)))))))"

text \<open>numpy broadcasting of two dimensions.\<close>

definition broadcast_dim :: "nat \<Rightarrow> nat \<Rightarrow> py_error + nat" where
  "broadcast_dim a b = (if a = b then Inr a else if a = 1 then Inr b else if b = 1 then Inr a
     else Inl ValueError)"

definition ANNRegression_plotHistory :: "('w world \<times> ('m, 'h) ann, unit) prog" where
  "ANNRegression_plotHistory =
     sbind (attr ''history'' (history \<circ> snd)) (\<lambda>_. log_call PlotShow)"

definition ANNRegression_predictWithModel ::
  "('m, 'h, 'w) keras \<Rightarrow> bool \<Rightarrow> ('w world \<times> ('m, 'h) ann, unit) prog" where
  "ANNRegression_predictWithModel K plot =
     sbind (attr ''model'' (model \<circ> snd)) (\<lambda>m.
     sbind (attr ''test_data'' (test_data \<circ> snd)) (\<lambda>xd.
     sbind (log_call (KerasPredict xd)) (\<lambda>_.
     sbind (slift (k_predict K m xd)) (\<lambda>test_predictions.
     if plot then
       sbind (attr ''test_labels'' (test_labels \<circ> snd)) (\<lambda>xl.
       sbind (log_call PlotShow) (\<lambda>_.
       sbind (slift (broadcast_dim (nrows test_predictions) (nrows xl))) (\<lambda>r.
       sbind (slift (broadcast_dim (ncols test_predictions) (ncols xl))) (\<lambda>_.
       sbind (if r = 0 then sraise IndexError else sreturn ()) (\<lambda>_.
       sbind (log_call PlotShow) (\<lambda>_.
       ANNRegression_plotHistory))))))
     else sreturn ()))))"

definition ANNRegression_saveModel ::
  "('m, 'h, 'w) keras \<Rightarrow> string \<Rightarrow> ('w world \<times> ('m, 'h) ann, unit) prog" where
  "ANNRegression_saveModel K name =
     sbind (attr ''model'' (model \<circ> snd)) (\<lambda>m.
     sbind (slift (k_to_json K m)) (\<lambda>model_json.
     sbind (on_world (write_file (lookup_tables @ name @ ''.json'')
              (TextFile (k_json_dump K model_json)))) (\<lambda>_.
     sbind (slift (k_save_weights K m)) (\<lambda>wts.
     on_world (write_file (lookup_tables @ name @ ''.h5'') (H5Weights wts))))))"



text \<open>
  \<open>ANNRegression.__init__\<close>. The name of a saved model is \<open>ann_model_\<close> followed by
  the current time with \<open>:\<close> replaced by \<open>-\<close> and the blank by \<open>_\<close>.
\<close>

definition stamp :: "'w world \<Rightarrow> string" where
  "stamp w = replace_char CHR '' '' CHR ''_'' (replace_char CHR '':'' CHR ''-'' (now_str w))"

definition ANNRegression_init ::
  "('m, 'h, 'w) keras \<Rightarrow> ann_args \<Rightarrow> ('w world \<times> ('m, 'h) ann, unit) prog" where
  "ANNRegression_init K a =
     (case load_profile a of
        None \<Rightarrow> sreturn ()
      | Some lp \<Rightarrow>
     (case voltage_profile a of
        None \<Rightarrow> sreturn ()
      | Some vp \<Rightarrow>
          sbind (sreturn (split_profiles (train_percentage a) lp vp)) (\<lambda>sp.
          sbind (smodify (\<lambda>s. (fst s, (snd s)\<lparr>train_data := Some (s_train_data sp),
                   train_labels := Some (s_train_labels sp),
                   test_data := Some (s_test_data sp),
                   test_labels := Some (s_test_labels sp)\<rparr>))) (\<lambda>_.
          sbind (ANNRegression_buildModel K (learning_rate a) (no_hidden_layers a)
                   (layer_density a) (dropout a)) (\<lambda>_.
          sbind (ANNRegression_trainModel K (no_epochs a) (early_stop a) 200) (\<lambda>_.
          sbind (ANNRegression_evaluateModel K) (\<lambda>_.
          sbind (ANNRegression_predictWithModel K (plot_results a)) (\<lambda>_.
          if save_model a then
            sbind (sget (stamp \<circ> fst)) (\<lambda>t.
            sbind (smodify (\<lambda>s. (fst s, (snd s)\<lparr>model_name := Some (''ann_model_'' @ t)\<rparr>))) (\<lambda>_.
            ANNRegression_saveModel K (''ann_model_'' @ t)))
          else sreturn ()))))))))"

text \<open>Constructing an object: \<open>__init__\<close> runs on a fresh object without attributes.\<close>

definition ANNRegression ::
  "('m, 'h, 'w) keras \<Rightarrow> ann_args \<Rightarrow> 'w world \<Rightarrow> (py_error + unit) \<times> 'w world \<times> ('m, 'h) ann" where
  "ANNRegression K a w = ANNRegression_init K a (w, ann_new)"


section \<open>ParametricRegression\<close>

text \<open>
  The numerical kernels outside the repository: \<open>tf.matrix_inverse\<close>, the numpy
  expression \<open>np.dot(a, b) + c\<close> of \<open>predictWithModel\<close> and the root mean square
  error of \<open>evaluateModel\<close>. Each may raise. The rounding of \<open>float32\<close> is not
  modelled: \<open>tf.constant\<close> is the identity on matrices.
\<close>

record numerics =
  matrix_inverse :: "mat \<Rightarrow> py_error + mat"
  np_dot_plus :: "mat \<Rightarrow> mat \<Rightarrow> real list list \<Rightarrow> py_error + mat"
  np_rmse :: "mat \<Rightarrow> mat \<Rightarrow> py_error + real"

text \<open>
  The attributes of a \<open>ParametricRegression\<close> object. \<open>train\<close> and \<open>test\<close> are
  dictionaries from keys to arrays.
\<close>

record pr =
  train :: "(string \<rightharpoonup> mat) option"
  test :: "(string \<rightharpoonup> mat) option"
  theta :: "mat option"
  bias :: "real list list option"
  pr_model_name :: "string option"

definition pr_new :: pr where
  "pr_new = \<lparr>train = None, test = None, theta = None, bias = None, pr_model_name = None\<rparr>"

record pr_args =
  pr_load_profile :: "mat option"
  pr_voltage_profile :: "mat option"
  pr_train_percentage :: real
  pr_save_model :: bool

definition pr_defaults :: pr_args where
  "pr_defaults = \<lparr>pr_load_profile = None, pr_voltage_profile = None,
     pr_train_percentage = 7 / 10, pr_save_model = False\<rparr>"

text \<open>\<open>d[key]\<close> of a dictionary.\<close>

definition item :: "(string \<rightharpoonup> 'a) \<Rightarrow> string \<Rightarrow> ('s, 'a) prog" where
  "item d key = (case d key of None \<Rightarrow> sraise (KeyError key) | Some x \<Rightarrow> sreturn x)"

definition ParametricRegression_calculateTheta ::
  "numerics \<Rightarrow> ('w world \<times> pr, unit) prog" where
  "ParametricRegression_calculateTheta N =
     sbind (attr ''train'' (train \<circ> snd)) (\<lambda>tr.
     sbind (item tr ''data_pb'') (\<lambda>x.
     sbind (item tr ''target'') (\<lambda>y.
     sbind (sreturn (tf_transpose x)) (\<lambda>xt.
     sbind (slift (tf_matmul xt x)) (\<lambda>xtx.
     sbind (slift (matrix_inverse N xtx)) (\<lambda>inv.
     sbind (slift (tf_matmul inv xt)) (\<lambda>p.
     sbind (slift (tf_matmul p y)) (\<lambda>th.
     sbind (log_call TfEval) (\<lambda>_.
     smodify (\<lambda>s. (fst s, (snd s)\<lparr>theta := Some th\<rparr>)))))))))))"

text \<open>
  \<open>[self.theta[0] for i in range(n)]\<close>: \<open>theta\<close> is read only when the range is
  not empty.
\<close>

definition first_row :: "mat \<Rightarrow> ('s, real list) prog" where
  "first_row A = (case rows A of [] \<Rightarrow> sraise IndexError | r # _ \<Rightarrow> sreturn r)"

definition ParametricRegression_calculateBias :: "('w world \<times> pr, unit) prog" where
  "ParametricRegression_calculateBias =
     sbind (attr ''train'' (train \<circ> snd)) (\<lambda>tr.
     sbind (item tr ''target'') (\<lambda>y.
     sbind (if nrows y = 0 then sreturn []
            else sbind (attr ''theta'' (theta \<circ> snd)) (\<lambda>th.
                 sbind (first_row th) (\<lambda>r. sreturn (replicate (nrows y) r)))) (\<lambda>b.
     smodify (\<lambda>s. (fst s, (snd s)\<lparr>bias := Some b\<rparr>)))))"

definition ParametricRegression_predictWithModel ::
  "numerics \<Rightarrow> mat \<Rightarrow> ('w world \<times> pr, mat) prog" where
  "ParametricRegression_predictWithModel N lp =
     sbind (if nrows lp = 0 then sreturn []
            else sbind (attr ''bias'' (bias \<circ> snd)) (\<lambda>b.
                 (case b of [] \<Rightarrow> sraise IndexError
                  | r # _ \<Rightarrow> sreturn (replicate (nrows lp) r)))) (\<lambda>adjusted_bias.
     sbind (attr ''theta'' (theta \<circ> snd)) (\<lambda>th.
     slift (np_dot_plus N lp (tf_transpose (mat_slice_from th 1)) adjusted_bias)))"

definition ParametricRegression_evaluateModel ::
  "numerics \<Rightarrow> ('w world \<times> pr, real) prog" where
  "ParametricRegression_evaluateModel N =
     sbind (attr ''test'' (test \<circ> snd)) (\<lambda>te.
     sbind (item te ''data'') (\<lambda>xd.
     sbind (ParametricRegression_predictWithModel N xd) (\<lambda>prediction.
     sbind (attr ''test'' (test \<circ> snd)) (\<lambda>te'.
     sbind (item te' ''target'') (\<lambda>xl.
     slift (np_rmse N prediction xl))))))"

text \<open>
  \<open>saveModel\<close>: the HDF5 file is created (or emptied) when it is opened, then the
  dataset \<open>data\<close> holding \<open>theta\<close> is written.
\<close>

definition ParametricRegression_saveModel :: "string \<Rightarrow> ('w world \<times> pr, unit) prog" where
  "ParametricRegression_saveModel name =
     sbind (on_world (write_file (lookup_tables @ name @ ''.h5'') (H5Datasets []))) (\<lambda>_.
     sbind (attr ''theta'' (theta \<circ> snd)) (\<lambda>th.
     smodify (\<lambda>s. ((fst s)\<lparr>files := (files (fst s))
        (lookup_tables @ name @ ''.h5'' \<mapsto> H5Datasets [(''data'', th)])\<rparr>, snd s))))"

text \<open>
  \<open>loadModel\<close>: the dataset \<open>data\<close> of the HDF5 file becomes \<open>self.theta\<close> and is
  returned. These steps are the \<open>try\<close> block; any exception of theirs is caught
  by the handler.
\<close>

definition ParametricRegression_loadModel_try ::
  "string \<Rightarrow> ('w world \<times> pr, mat load_result) prog" where
  "ParametricRegression_loadModel_try name =
       (sbind (at_line 248) (\<lambda>_.
        sbind (read_path (lookup_tables @ name @ ''.h5'')) (\<lambda>f.
        sbind (case f of
                 H5Datasets ds \<Rightarrow> item (map_of ds) ''data''
               | H5Weights _ \<Rightarrow> sraise (KeyError ''data'')
               | TextFile _ \<Rightarrow> sraise (OSError (lookup_tables @ name @ ''.h5''))) (\<lambda>d.
        sbind (smodify (\<lambda>s. (fst s, (snd s)\<lparr>theta := Some d\<rparr>))) (\<lambda>_.
        sbind (at_line 249) (\<lambda>_.
        sbind (py_print ''Opening NE-derived look up table'') (\<lambda>_.
        sbind (at_line 250) (\<lambda>_.
        sbind (attr ''theta'' (theta \<circ> snd)) (\<lambda>th.
        sreturn (Loaded th))))))))))"

definition ParametricRegression_loadModel ::
  "string \<Rightarrow> ('w world \<times> pr, mat load_result) prog" where
  "ParametricRegression_loadModel name =
     stry (ParametricRegression_loadModel_try name) loading_failed"

definition ParametricRegression_init ::
  "numerics \<Rightarrow> pr_args \<Rightarrow> ('w world \<times> pr, unit) prog" where
  "ParametricRegression_init N a =
     (case pr_load_profile a of
        None \<Rightarrow> sreturn ()
      | Some lp \<Rightarrow>
     (case pr_voltage_profile a of
        None \<Rightarrow> sreturn ()
      | Some vp \<Rightarrow>
          sbind (sreturn (split_profiles (pr_train_percentage a) lp vp)) (\<lambda>sp.
          sbind (smodify (\<lambda>s. (fst s, (snd s)\<lparr>train := Some
                   [''data'' \<mapsto> s_train_data sp, ''target'' \<mapsto> s_train_labels sp]\<rparr>))) (\<lambda>_.
          sbind (slift (add_bias_column (nrows (s_train_labels sp)) (s_train_data sp))) (\<lambda>data_pb.
          sbind (smodify (\<lambda>s. (fst s, (snd s)\<lparr>train := Some
                   [''data'' \<mapsto> s_train_data sp, ''target'' \<mapsto> s_train_labels sp,
                    ''data_pb'' \<mapsto> data_pb]\<rparr>))) (\<lambda>_.
          sbind (smodify (\<lambda>s. (fst s, (snd s)\<lparr>test := Some
                   [''data'' \<mapsto> s_test_data sp, ''target'' \<mapsto> s_test_labels sp]\<rparr>))) (\<lambda>_.
          sbind (ParametricRegression_calculateTheta N) (\<lambda>_.
          sbind ParametricRegression_calculateBias (\<lambda>_.
          sbind (ParametricRegression_predictWithModel N (s_test_data sp)) (\<lambda>_.
          sbind (ParametricRegression_evaluateModel N) (\<lambda>_.
          if pr_save_model a then
            sbind (sget (stamp \<circ> fst)) (\<lambda>t.
            sbind (smodify (\<lambda>s. (fst s, (snd s)\<lparr>pr_model_name := Some (''ne_model_'' @ t)\<rparr>))) (\<lambda>_.
            ParametricRegression_saveModel (''ne_model_'' @ t)))
          else sreturn ())))))))))))"

definition ParametricRegression ::
  "numerics \<Rightarrow> pr_args \<Rightarrow> 'w world \<Rightarrow> (py_error + unit) \<times> 'w world \<times> pr" where
  "ParametricRegression N a w = ParametricRegression_init N a (w, pr_new)"


section \<open>HyperparamSearch\<close>

text \<open>
  An entry of \<open>solution_matrix\<close> is a Python or numpy integer or a float.
  \<open>py_str\<close> and \<open>py_float\<close> are the builtins \<open>str\<close> and \<open>float\<close>.
\<close>

datatype num = PyInt int | PyFloat real

fun num_val :: "num \<Rightarrow> real" where
  "num_val (PyInt i) = real_of_int i"
| "num_val (PyFloat x) = x"

record builtins =
  py_str :: "num \<Rightarrow> string"
  py_float :: "string \<Rightarrow> py_error + real"

text \<open>What \<open>evaluateModel\<close> hands back, and indexing it: a numpy scalar has no items.\<close>

datatype pyval = Scalar real | Sequence "real list"

definition getitem :: "pyval \<Rightarrow> nat \<Rightarrow> py_error + real" where
  "getitem v i =
     (case v of
        Scalar _ \<Rightarrow> Inl IndexError
      | Sequence xs \<Rightarrow> (if i < length xs then Inr (xs ! i) else Inl IndexError))"

text \<open>
  A class as the grid search uses it: its constructor, called with the two
  profiles and the keywords \<open>learning_rate\<close>, \<open>no_hidden_layers\<close> and
  \<open>layer_density\<close>, and its method \<open>evaluateModel\<close>.
\<close>

record ('w, 'o) py_class =
  cls_new :: "mat \<Rightarrow> mat \<Rightarrow> real \<Rightarrow> int \<Rightarrow> int \<Rightarrow> 'w world \<Rightarrow> (py_error + 'o) \<times> 'w world"
  cls_evaluateModel :: "'o \<Rightarrow> 'w world \<Rightarrow> (py_error + pyval) \<times> 'w world"

text \<open>
  The names bound at the top level of \<open>regressiontools.py\<close>: its imports, its four
  classes and its function. Reading a global name that the module's namespace
  \<open>G\<close> does not bind (and that is not a builtin) raises \<open>NameError\<close>.
\<close>

definition module_globals :: "string list" where
  "module_globals = [''sys'', ''datetime'', ''json'', ''time'', ''tf'', ''keras'', ''Sequential'',
     ''model_from_json'', ''Dense'', ''Activation'', ''Reshape'', ''SimpleRNN'', ''plt'', ''np'',
     ''h5py'', ''ANNRegression'', ''ParametricRegression'', ''TrainRNN'', ''HyperparamSearch'',
     ''epochAnalysis'']"

definition global_name :: "string list \<Rightarrow> string \<Rightarrow> ('s, unit) prog" where
  "global_name G n = (if n \<in> set G then sreturn () else sraise (NameError n))"

definition in_world :: "('w world \<Rightarrow> (py_error + 'a) \<times> 'w world) \<Rightarrow> ('w world \<times> 'o, 'a) prog" where
  "in_world f s = (case f (fst s) of (r, w') \<Rightarrow> (r, (w', snd s)))"

text \<open>A \<open>for\<close> loop over a list: an exception in the body ends the loop.\<close>

fun sfor :: "'a list \<Rightarrow> ('a \<Rightarrow> ('s, unit) prog) \<Rightarrow> ('s, unit) prog" where
  "sfor [] body = sreturn ()"
| "sfor (x # xs) body = sbind (body x) (\<lambda>_. sfor xs body)"

text \<open>\<open>np.arange(start, stop, step)\<close> for floats and for integers.\<close>

definition np_arange :: "real \<Rightarrow> real \<Rightarrow> real \<Rightarrow> real list" where
  "np_arange start stop step =
     map (\<lambda>i. start + real i * step) [0..<nat \<lceil>(stop - start) / step\<rceil>]"

definition np_arange_int :: "int \<Rightarrow> int \<Rightarrow> int \<Rightarrow> int list" where
  "np_arange_int start stop step =
     map (\<lambda>i. start + int i * step) [0..<nat \<lceil>real_of_int (stop - start) / real_of_int step\<rceil>]"

record hs =
  solution_matrix :: "num list list option"
  params :: "int list option"
  runtime :: "int option"

definition hs_new :: hs where
  "hs_new = \<lparr>solution_matrix = None, params = None, runtime = None\<rparr>"

definition LF :: char where
  "LF = CHR 0x0A"

definition CR :: char where
  "CR = CHR 0x0D"

text \<open>
  The two loops of \<open>exportResults\<close> with their counter: after each entry but the
  last of its row the separator is written, after each row a newline, and the
  counter starts again from zero.
\<close>

fun write_row :: "(num \<Rightarrow> string) \<Rightarrow> int \<Rightarrow> int \<Rightarrow> num list \<Rightarrow> string" where
  "write_row str n counter [] = []"
| "write_row str n counter (x # xs) =
     str x @ (if counter < n - 1 then '', '' else []) @ write_row str n (counter + 1) xs"

fun write_sessions :: "(num \<Rightarrow> string) \<Rightarrow> int \<Rightarrow> num list list \<Rightarrow> string" where
  "write_sessions str counter [] = []"
| "write_sessions str counter (row # rest) =
     write_row str (int (length row)) counter row @ [LF] @ write_sessions str 0 rest"

definition results_path :: "string \<Rightarrow> string" where
  "results_path t = ''./data/hyperparamsearchresults_'' @ t @ ''seconds'' @ ''.txt''"

definition HyperparamSearch_exportResults :: "builtins \<Rightarrow> ('w world \<times> hs, unit) prog" where
  "HyperparamSearch_exportResults B =
     sbind (attr ''runtime'' (runtime \<circ> snd)) (\<lambda>rt.
     sbind (on_world (write_file (results_path (py_str B (PyInt rt))) (TextFile []))) (\<lambda>_.
     sbind (attr ''solution_matrix'' (solution_matrix \<circ> snd)) (\<lambda>M.
     smodify (\<lambda>s. ((fst s)\<lparr>files := (files (fst s))
        (results_path (py_str B (PyInt rt)) \<mapsto> TextFile (write_sessions (py_str B) 0 M))\<rparr>,
        snd s)))))"

text \<open>
  Reading a text file translates a carriage return, with the line feed that may
  follow it, to one line feed; iterating over the file gives its lines, each with
  its line feed (the last one may lack it).
\<close>

fun universal_newlines :: "string \<Rightarrow> string" where
  "universal_newlines [] = []"
| "universal_newlines [c] = [if c = CR then LF else c]"
| "universal_newlines (c # d # cs) =
     (if c = CR \<and> d = LF then LF # universal_newlines cs
      else if c = CR then LF # universal_newlines (d # cs)
      else c # universal_newlines (d # cs))"

fun py_lines :: "string \<Rightarrow> string \<Rightarrow> string list" where
  "py_lines acc [] = (if acc = [] then [] else [rev acc])"
| "py_lines acc (c # cs) =
     (if c = LF then rev (c # acc) # py_lines [] cs else py_lines (c # acc) cs)"

text \<open>\<open>s.split(', ')\<close>.\<close>

fun split_comma_space :: "string \<Rightarrow> string \<Rightarrow> string list" where
  "split_comma_space acc [] = [rev acc]"
| "split_comma_space acc [c] = [rev (c # acc)]"
| "split_comma_space acc (c # d # cs) =
     (if c = CHR '','' \<and> d = CHR '' '' then rev acc # split_comma_space [] cs
      else split_comma_space (c # acc) (d # cs))"

text \<open>A list comprehension over calls that may raise: the first exception ends it.\<close>

fun each :: "('a \<Rightarrow> py_error + 'b) \<Rightarrow> 'a list \<Rightarrow> py_error + 'b list" where
  "each f [] = Inr []"
| "each f (x # xs) = ebind (f x) (\<lambda>y. ebind (each f xs) (\<lambda>ys. Inr (y # ys)))"

definition parse_line :: "builtins \<Rightarrow> string \<Rightarrow> py_error + num list" where
  "parse_line B line =
     each (\<lambda>i. ebind (py_float B i) (\<lambda>x. Inr (PyFloat x)))
       (split_comma_space [] (filter (\<lambda>c. c \<noteq> LF) line))"

definition HyperparamSearch_importResults :: "builtins \<Rightarrow> string \<Rightarrow> ('w world \<times> hs, unit) prog" where
  "HyperparamSearch_importResults B rt =
     sbind (read_path (''./data/hyperparamsearchresults_'' @ rt @ ''seconds.txt'')) (\<lambda>f.
     sbind (case f of TextFile t \<Rightarrow> sreturn t | _ \<Rightarrow> sraise ValueError) (\<lambda>t.
     sbind (slift (each (parse_line B) (py_lines [] (universal_newlines t)))) (\<lambda>results.
     smodify (\<lambda>s. (fst s, (snd s)\<lparr>solution_matrix := Some results\<rparr>)))))"

text \<open>
  The body of the innermost loop of the grid search: the name \<open>TrainANN\<close> is
  looked up in the namespace \<open>G\<close> of the module, the class is called, and
  \<open>evaluateModel\<close> is called twice for the two results of the row. \<open>TrainANN\<close>
  is the class the name gives in a namespace that binds it.
\<close>

definition append_row :: "num list \<Rightarrow> ('w world \<times> hs, unit) prog" where
  "append_row row =
     sbind (attr ''solution_matrix'' (solution_matrix \<circ> snd)) (\<lambda>M.
     smodify (\<lambda>s. (fst s, (snd s)\<lparr>solution_matrix := Some (M @ [row])\<rparr>)))"

definition grid_point ::
  "string list \<Rightarrow> ('w, 'o) py_class \<Rightarrow> mat \<Rightarrow> mat \<Rightarrow> real \<Rightarrow> int \<Rightarrow> int \<Rightarrow> ('w world \<times> hs, unit) prog" where
  "grid_point G TrainANN lp vp lr hl ld =
     sbind (global_name G ''TrainANN'') (\<lambda>_.
     sbind (in_world (cls_new TrainANN lp vp lr hl ld)) (\<lambda>ann.
     sbind (in_world (cls_evaluateModel TrainANN ann)) (\<lambda>e0.
     sbind (slift (getitem e0 0)) (\<lambda>r0.
     sbind (in_world (cls_evaluateModel TrainANN ann)) (\<lambda>e1.
     sbind (slift (getitem e1 1)) (\<lambda>r1.
     append_row [PyFloat lr, PyInt hl, PyInt ld, PyFloat r0, PyFloat r1]))))))"

definition HyperparamSearch_init ::
  "builtins \<Rightarrow> string list \<Rightarrow> ('w, 'o) py_class \<Rightarrow> mat option \<Rightarrow> mat option \<Rightarrow> string \<Rightarrow>
     ('w world \<times> hs, unit) prog" where
  "HyperparamSearch_init B G TrainANN load_prof voltage_prof search_type =
     sbind (smodify (\<lambda>s. (fst s, (snd s)\<lparr>solution_matrix := Some []\<rparr>))) (\<lambda>_.
     (case load_prof of
        None \<Rightarrow> sreturn ()
      | Some lp \<Rightarrow>
     (case voltage_prof of
        None \<Rightarrow> sreturn ()
      | Some vp \<Rightarrow>
          sbind (sget (clock \<circ> fst)) (\<lambda>start.
          if search_type = ''grid'' then
            sbind (sreturn (np_arange (1 / 1000) (1 / 10) (2 / 100))) (\<lambda>tg_learning_rate.
            sbind (sreturn (np_arange_int 1 2 1)) (\<lambda>tg_no_hidden_layers.
            sbind (sreturn (np_arange_int 50 60 10)) (\<lambda>tg_layer_density.
            sbind (sreturn [int (length tg_learning_rate), int (length tg_no_hidden_layers),
                     int (length tg_layer_density)]) (\<lambda>ps.
            sbind (smodify (\<lambda>s. (fst s, (snd s)\<lparr>params := Some ps\<rparr>))) (\<lambda>_.
            sbind (append_row (map PyInt ps)) (\<lambda>_.
            sbind (sfor tg_learning_rate (\<lambda>lr.
                   sfor tg_no_hidden_layers (\<lambda>hl.
                   sfor tg_layer_density (\<lambda>ld.
                     grid_point G TrainANN lp vp lr hl ld)))) (\<lambda>_.
            sbind (sget (clock \<circ> fst)) (\<lambda>end.
            sbind (smodify (\<lambda>s. (fst s, (snd s)\<lparr>runtime := Some (py_int (end - start))\<rparr>))) (\<lambda>_.
            HyperparamSearch_exportResults B)))))))))
          else sreturn ()))))"

definition HyperparamSearch ::
  "builtins \<Rightarrow> string list \<Rightarrow> ('w, 'o) py_class \<Rightarrow> mat option \<Rightarrow> mat option \<Rightarrow> string \<Rightarrow> 'w world \<Rightarrow>
     (py_error + unit) \<times> 'w world \<times> hs" where
  "HyperparamSearch B G TrainANN load_prof voltage_prof search_type w =
     HyperparamSearch_init B G TrainANN load_prof voltage_prof search_type (w, hs_new)"

section \<open>The timing script\<close>

text \<open>
  What the script \<open>annnohousestiming.py\<close> calls from other modules: the clock, the
  configuration generator, the power-flow simulator and the network trainer. Each
  acts on a world of type \<open>'x\<close> and may raise; \<open>'p\<close> and \<open>'a\<close> are the simulator
  and trainer objects. \<open>str_int\<close> is \<open>str\<close> on integers.
\<close>

record ('x, 'p, 'a) env =
  time_now :: "'x \<Rightarrow> real"
  str_int :: "int \<Rightarrow> string"
  generateJson :: "int \<Rightarrow> string \<Rightarrow> 'x \<Rightarrow> (py_error + unit) \<times> 'x"
  PowerFlowSim :: "int \<Rightarrow> string \<Rightarrow> string \<Rightarrow> 'x \<Rightarrow> (py_error + 'p) \<times> 'x"
  nrPfSim :: "'p \<Rightarrow> 'x \<Rightarrow> (py_error + unit) \<times> 'x"
  nodeloads :: "'p \<Rightarrow> 'x \<Rightarrow> py_error + mat"
  nodevoltages :: "'p \<Rightarrow> 'x \<Rightarrow> py_error + mat"
  TrainANN :: "mat \<Rightarrow> mat \<Rightarrow> 'x \<Rightarrow> (py_error + 'a) \<times> 'x"
  buildModel :: "'a \<Rightarrow> 'x \<Rightarrow> (py_error + unit) \<times> 'x"
  trainModel :: "'a \<Rightarrow> 'x \<Rightarrow> (py_error + unit) \<times> 'x"
  evaluateModel :: "'a \<Rightarrow> 'x \<Rightarrow> (py_error + unit) \<times> 'x"
  predictWithModel :: "'a \<Rightarrow> bool \<Rightarrow> 'x \<Rightarrow> (py_error + unit) \<times> 'x"
  plotit :: "int list \<Rightarrow> real list \<Rightarrow> 'x \<Rightarrow> (py_error + unit) \<times> 'x"

text \<open>The calls the script makes, in the order it makes them; a clock reading carries its value.\<close>

datatype call =
    CallGenerateJson int
  | CallPowerFlowSim int
  | CallNrPfSim
  | CallTime real
  | CallTrainANN
  | CallBuildModel
  | CallTrainModel
  | CallEvaluateModel
  | CallPredictWithModel
  | CallPlotit

text \<open>The script's variables \<open>data\<close> (its two lists) and \<open>k\<close>, the calls so far and the world.\<close>

record 'x script =
  data0 :: "int list"
  data1 :: "real list"
  k :: int
  calls :: "call list"
  ext :: 'x

definition script_start :: "'x \<Rightarrow> 'x script" where
  "script_start x = \<lparr>data0 = [], data1 = [], k = 0, calls = [], ext = x\<rparr>"

definition ext_call :: "call \<Rightarrow> ('x \<Rightarrow> (py_error + 'r) \<times> 'x) \<Rightarrow> ('x script, 'r) prog" where
  "ext_call c f st =
     (case f (ext st) of (r, x') \<Rightarrow> (r, st\<lparr>calls := calls st @ [c], ext := x'\<rparr>))"

definition read_clock :: "('x, 'p, 'a) env \<Rightarrow> ('x script, real) prog" where
  "read_clock E st =
     (Inr (time_now E (ext st)), st\<lparr>calls := calls st @ [CallTime (time_now E (ext st))]\<rparr>)"

definition timing_train :: "('x, 'p, 'a) env \<Rightarrow> 'p \<Rightarrow> ('x script, real) prog" where
  "timing_train E pfs =
     sbind (read_clock E) (\<lambda>before.
     sbind (sget (nodeloads E pfs \<circ> ext)) (\<lambda>l. sbind (slift l) (\<lambda>loads.
     sbind (sget (nodevoltages E pfs \<circ> ext)) (\<lambda>v. sbind (slift v) (\<lambda>voltages.
     sbind (ext_call CallTrainANN (TrainANN E loads voltages)) (\<lambda>ann.
     sbind (ext_call CallBuildModel (buildModel E ann)) (\<lambda>_.
     sbind (ext_call CallTrainModel (trainModel E ann)) (\<lambda>_.
     sbind (ext_call CallEvaluateModel (evaluateModel E ann)) (\<lambda>_.
     sbind (ext_call CallPredictWithModel (predictWithModel E ann False)) (\<lambda>_.
     sbind (read_clock E) (\<lambda>after.
     sreturn (after - before))))))))))))"

text \<open>
  The function \<open>train\<close> of the script is \<open>timing_train\<close> above. Next,
  \<open>xs[i]\<close> of a list, with Python's negative indices.
\<close>

definition list_item :: "'a list \<Rightarrow> int \<Rightarrow> py_error + 'a" where
  "list_item xs i =
     (if 0 \<le> i \<and> i < int (length xs) then Inr (xs ! nat i)
      else if i < 0 \<and> - int (length xs) \<le> i then Inr (xs ! nat (int (length xs) + i))
      else Inl IndexError)"

text \<open>The body of the loop over \<open>no_houses\<close>.\<close>

definition sweep_body :: "('x, 'p, 'a) env \<Rightarrow> int \<Rightarrow> int \<Rightarrow> ('x script, unit) prog" where
  "sweep_body E simlength no_houses =
     sbind (smodify (\<lambda>st. st\<lparr>data0 := data0 st @ [no_houses]\<rparr>)) (\<lambda>_.
     sbind (ext_call (CallGenerateJson no_houses) (generateJson E no_houses ''mikework'')) (\<lambda>_.
     sbind (ext_call (CallPowerFlowSim no_houses) (PowerFlowSim E simlength ''radial''
              (''../_configs/montecarlo'' @ str_int E no_houses @ ''.json''))) (\<lambda>pfs.
     sbind (ext_call CallNrPfSim (nrPfSim E pfs)) (\<lambda>_.
     sbind (timing_train E pfs) (\<lambda>traintime.
     sbind (smodify (\<lambda>st. st\<lparr>data1 := data1 st @ [traintime]\<rparr>)) (\<lambda>_.
     sbind (sget (\<lambda>st. list_item (data1 st) (k st))) (\<lambda>a. sbind (slift a) (\<lambda>_.
     sbind (sget (\<lambda>st. list_item (data0 st) (k st))) (\<lambda>b. sbind (slift b) (\<lambda>_.
     smodify (\<lambda>st. st\<lparr>k := k st + 1\<rparr>)))))))))))"

definition sweep :: "('x, 'p, 'a) env \<Rightarrow> ('x script, unit) prog" where
  "sweep E = sfor (np_arange_int 10 250 10) (sweep_body E 100)"

definition timing_script :: "('x, 'p, 'a) env \<Rightarrow> 'x \<Rightarrow> (py_error + unit) \<times> 'x script" where
  "timing_script E x =
     sbind (sweep E) (\<lambda>_.
     sbind (sget (\<lambda>st. (data0 st, data1 st))) (\<lambda>d.
     ext_call CallPlotit (plotit E (fst d) (snd d)))) (script_start x)"


section \<open>The stages of the ANN constructor, as the specification lists them\<close>



section \<open>A small framework and world for concrete runs\<close>

text \<open>
  A stand-in for Keras whose models are their layer lists, whose training history
  is the number of epochs, and whose evaluation reports a loss and a metric of
  zero; a stand-in for the numerical kernels whose inverse is that of a 2 by 2
  matrix; and a world without files where every path is writable and the console
  writes ASCII only.
\<close>

definition toy_keras :: "(layer list, int, layer list) keras" where
  "toy_keras = \<lparr>k_compile = (\<lambda>ls lr. Inr ls), k_dropout_ok = (\<lambda>r. 0 \<le> r \<and> r < 1),
     k_fit = (\<lambda>m td tl ep p. Inr (m, ep)), k_evaluate = (\<lambda>m xd xl. Inr (0, 0)),
     k_predict = (\<lambda>m xd. Inr xd), k_to_json = (\<lambda>m. Inr ''{}''),
     k_json_dump = (\<lambda>t. [CHR 0x22] @ t @ [CHR 0x22]), k_save_weights = (\<lambda>m. Inr m),
     k_model_from_json = (\<lambda>t. if t = ''{}'' then Inr [] else Inl ValueError),
     k_load_weights = (\<lambda>m wts. Inr wts)\<rparr>"

definition inverse2 :: "mat \<Rightarrow> py_error + mat" where
  "inverse2 A =
     (let a = entry A 0 0; b = entry A 0 1; c = entry A 1 0; d = entry A 1 1 in
      if nrows A = 2 \<and> ncols A = 2 \<and> a * d - b * c \<noteq> 0
      then Inr (mk_mat 2 [[d / (a * d - b * c), - b / (a * d - b * c)],
                          [- c / (a * d - b * c), a / (a * d - b * c)]])
      else Inl (ExternalError ''Input is not invertible.''))"

definition toy_numerics :: numerics where
  "toy_numerics = \<lparr>matrix_inverse = inverse2, np_dot_plus = (\<lambda>a b c. Inr a),
     np_rmse = (\<lambda>a b. Inr 0)\<rparr>"

definition toy_world :: "layer list world" where
  "toy_world = \<lparr>files = Map.empty, writable = (\<lambda>p. True),
     now_str = ''2018-07-01 12:00:00.000000'', clock = 0, trace = [],
     encodes = (\<lambda>t. False), lineno = 0\<rparr>"


definition toy_load :: mat where
  "toy_load = mk_mat 1 [[10], [20], [30], [40]]"

definition toy_voltage :: mat where
  "toy_voltage = mk_mat 1 [[1], [2], [3], [4]]"

definition toy_args :: ann_args where
  "toy_args = ann_defaults\<lparr>load_profile := Some toy_load, voltage_profile := Some toy_voltage,
     train_percentage := 1 / 2, save_model := True\<rparr>"

definition toy_pr_args :: pr_args where
  "toy_pr_args = pr_defaults\<lparr>pr_load_profile := Some toy_load,
     pr_voltage_profile := Some toy_voltage, pr_train_percentage := 1 / 2, pr_save_model := True\<rparr>"

text \<open>
  A string that can stand for an entry in the results file: without comma, line
  feed or carriage return, as the text of a number is.
\<close>

definition clean :: "string \<Rightarrow> bool" where
  "clean t = (CHR '','' \<notin> set t \<and> LF \<notin> set t \<and> CR \<notin> set t)"

text \<open>A call returns when it does not raise; an environment never raises when none of its calls does.\<close>

definition returns :: "(py_error + 'r) \<times> 's \<Rightarrow> bool" where
  "returns r = (case fst r of Inl _ \<Rightarrow> False | Inr _ \<Rightarrow> True)"




definition toy_builtins :: builtins where
  "toy_builtins = \<lparr>py_str = (\<lambda>v. case v of
        PyInt i \<Rightarrow> (if i = 5 then ''5'' else if i = 7 then ''7'' else if i = 0 then ''0''
          else ''1'')
      | PyFloat x \<Rightarrow> ''0.5''),
     py_float = (\<lambda>t. if t = ''5'' then Inr 5 else if t = ''1'' then Inr 1
        else if t = ''0.5'' then Inr (1 / 2) else Inl ValueError)\<rparr>"

definition toy_matrix :: "num list list" where
  "toy_matrix = [[PyInt 5, PyInt 1, PyInt 1], [PyFloat (1 / 2), PyInt 1, PyInt 1]]"

definition toy_hs :: hs where
  "toy_hs = \<lparr>solution_matrix = Some toy_matrix, params = None, runtime = Some 7\<rparr>"

definition toy_class :: "(layer list, unit) py_class" where
  "toy_class = \<lparr>cls_new = (\<lambda>lp vp lr hl ld w. (Inr (), w)),
     cls_evaluateModel = (\<lambda>obj w. (Inr (Sequence [0, 0]), w))\<rparr>"


section \<open>The split\<close>

lemma slice_bound_nonneg: "0 \<le> i \<Longrightarrow> slice_bound n i = min n (nat i)"
  by (simp add: slice_bound_def)

lemma split_drops_row:
  assumes "0 \<le> s" and "nat s < length xs"
  shows "py_slice xs 0 s @ [xs ! nat s] @ py_slice_from xs (s + 1) = xs"
proof -
  have a: "py_slice xs 0 s = take (nat s) xs"
    using assms by (simp add: py_slice_def slice_bound_nonneg)
  have b: "py_slice_from xs (s + 1) = drop (Suc (nat s)) xs"
    using assms by (simp add: py_slice_from_def slice_bound_nonneg nat_add_distrib)
  show ?thesis
    unfolding a b using assms(2) by (simp add: id_take_nth_drop [symmetric])
qed

text \<open>
  C1. The constructors split at \<open>s = int(train_percentage * len(load_profile))\<close>:
  the train part is rows \<open>[0, s)\<close>, but the test part starts at row \<open>s + 1\<close>, so
  row \<open>s\<close> is in neither part. With four rows and \<open>train_percentage = 0.5\<close> the
  split index is 2, the train part is rows 0 and 1, the test part is row 3 alone,
  and row 2 is lost; the attributes of the constructed object show the same.
\<close>

theorem split_profiles_loses_row:
  "split_profiles (1 / 2) toy_load toy_voltage =
     \<lparr>s_train_data = mk_mat 1 [[10], [20]], s_train_labels = mk_mat 1 [[1], [2]],
      s_test_data = mk_mat 1 [[40]], s_test_labels = mk_mat 1 [[4]]\<rparr> \<and>
   [30] \<in> set (rows toy_load) \<and>
   [30] \<notin> set (rows (s_train_data (split_profiles (1 / 2) toy_load toy_voltage))) \<union>
     set (rows (s_test_data (split_profiles (1 / 2) toy_load toy_voltage))) \<and>
   train_data (snd (snd (ANNRegression toy_keras toy_args toy_world))) = Some (mk_mat 1 [[10], [20]]) \<and>
   test_data (snd (snd (ANNRegression toy_keras toy_args toy_world))) = Some (mk_mat 1 [[40]])"
  by (simp add: split_profiles_def split_index_def py_int_def mat_slice_def mat_slice_from_def
      py_slice_def py_slice_from_def slice_bound_def mk_mat_def toy_load_def toy_voltage_def
      ANNRegression_def ANNRegression_init_def ANNRegression_buildModel_def
      ANNRegression_trainModel_def ANNRegression_evaluateModel_def
      ANNRegression_predictWithModel_def ANNRegression_saveModel_def
      sreturn_def sraise_def slift_def sbind_def smodify_def sget_def attr_def on_world_def
      log_call_def toy_keras_def toy_args_def toy_world_def ann_defaults_def
      ann_new_def write_file_def log_event_def)

section \<open>Reasoning about programs\<close>

lemmas prog_defs = sreturn_def sraise_def slift_def sbind_def smodify_def sget_def stry_def attr_def
  on_world_def log_call_def read_path_def item_def at_line_def

lemma sbind_success:
  assumes "sbind m f s = (Inr y, s'')"
  obtains x s' where "m s = (Inr x, s')" and "f x s' = (Inr y, s'')"
  using assms by (auto simp: sbind_def split: prod.splits sum.splits)

lemma nrows_mat_of [simp]: "nrows (mat_of m n f) = m"
  and ncols_mat_of [simp]: "ncols (mat_of m n f) = n"
  by (simp_all add: mat_of_def)

lemma entry_mat_of [simp]: "i < m \<Longrightarrow> j < n \<Longrightarrow> entry (mat_of m n f) i j = f i j"
  by (simp add: mat_of_def entry_def)

lemma mat_of_cong:
  assumes "\<And>i j. i < m \<Longrightarrow> j < n \<Longrightarrow> f i j = g i j"
  shows "mat_of m n f = mat_of m n g"
  using assms by (simp add: mat_of_def)

lemma nrows_mm [simp]: "nrows (mm A B) = nrows A"
  and ncols_mm [simp]: "ncols (mm A B) = ncols B"
  by (simp_all add: mm_def)

lemma nrows_transpose [simp]: "nrows (tf_transpose A) = ncols A"
  and ncols_transpose [simp]: "ncols (tf_transpose A) = nrows A"
  by (simp_all add: tf_transpose_def)

lemma entry_mm:
  "i < nrows A \<Longrightarrow> j < ncols B \<Longrightarrow>
   entry (mm A B) i j = (\<Sum>k<ncols A. entry A i k * entry B k j)"
  by (simp add: mm_def interv_sum_list_conv_sum_set_nat atLeast0LessThan)

lemma mm_assoc:
  assumes "ncols A = nrows B" and "ncols B = nrows C"
  shows "mm (mm A B) C = mm A (mm B C)"
proof -
  have "(\<Sum>k<ncols B. entry (mm A B) i k * entry C k j) =
        (\<Sum>l<ncols A. entry A i l * entry (mm B C) l j)"
    if i: "i < nrows A" and j: "j < ncols C" for i j
  proof -
    have "(\<Sum>k<ncols B. entry (mm A B) i k * entry C k j) =
          (\<Sum>k<ncols B. \<Sum>l<ncols A. entry A i l * entry B l k * entry C k j)"
      using i by (simp add: entry_mm sum_distrib_right)
    also have "\<dots> = (\<Sum>l<ncols A. \<Sum>k<ncols B. entry A i l * entry B l k * entry C k j)"
      by (rule sum.swap)
    also have "\<dots> = (\<Sum>l<ncols A. entry A i l * entry (mm B C) l j)"
      using j assms by (simp add: entry_mm sum_distrib_left mult.assoc)
    finally show ?thesis .
  qed
  then have "mat_of (nrows A) (ncols C) (\<lambda>i j. \<Sum>k<ncols B. entry (mm A B) i k * entry C k j) =
      mat_of (nrows A) (ncols C) (\<lambda>i j. \<Sum>l<ncols A. entry A i l * entry (mm B C) l j)"
    by (intro mat_of_cong)
  then show ?thesis
    unfolding mm_def [of "mm A B" C] mm_def [of A "mm B C"]
    by (simp add: interv_sum_list_conv_sum_set_nat atLeast0LessThan)
qed


section \<open>The constructors without profiles\<close>

text \<open>
  C8. When \<open>load_profile\<close> or \<open>voltage_profile\<close> is \<open>None\<close> (as in the call with
  all defaults), either constructor returns at once: the world is as before (no
  call into the framework, no file read or written) and the object has no
  attribute set.
\<close>

theorem init_without_profiles:
  "(load_profile a = None \<or> voltage_profile a = None \<longrightarrow>
      ANNRegression K a w = (Inr (), w, ann_new)) \<and>
   (pr_load_profile b = None \<or> pr_voltage_profile b = None \<longrightarrow>
      ParametricRegression N b v = (Inr (), v, pr_new)) \<and>
   ANNRegression K ann_defaults w = (Inr (), w, ann_new) \<and>
   ParametricRegression N pr_defaults v = (Inr (), v, pr_new)"
  by (auto simp: ANNRegression_def ANNRegression_init_def ParametricRegression_def
      ParametricRegression_init_def sreturn_def ann_defaults_def pr_defaults_def
      split: option.splits)

theorem init_without_profiles_witness:
  "voltage_profile (ann_defaults\<lparr>load_profile := Some toy_load\<rparr>) = None \<and>
   ANNRegression toy_keras (ann_defaults\<lparr>load_profile := Some toy_load\<rparr>) toy_world =
     (Inr (), toy_world, ann_new) \<and>
   pr_load_profile (pr_defaults\<lparr>pr_voltage_profile := Some toy_voltage\<rparr>) = None \<and>
   ParametricRegression toy_numerics (pr_defaults\<lparr>pr_voltage_profile := Some toy_voltage\<rparr>)
     toy_world = (Inr (), toy_world, pr_new)"
  using init_without_profiles [of "ann_defaults\<lparr>load_profile := Some toy_load\<rparr>" toy_keras
      toy_world "pr_defaults\<lparr>pr_voltage_profile := Some toy_voltage\<rparr>" toy_numerics toy_world]
  by (simp add: ann_defaults_def pr_defaults_def)

section \<open>The order of the stages of the ANN constructor\<close>












section \<open>Loading a model\<close>


lemma print_ne_opening: "py_print ''Opening NE-derived look up table'' s = (Inr (), s)"
  by (simp add: py_print_def printable_def is_ascii_def)

lemma loading_failed_fst:
  "fst (loading_failed ex s) =
     (if printable (fst s) (failure_message (lineno (fst s)) ex) then Inr PyFalse
      else Inl UnicodeEncodeError)"
  by (simp add: loading_failed_def sbind_def sget_def py_print_def sreturn_def)

lemma stry_fst:
  "fst (stry m h s) = (case m s of (Inl e, s') \<Rightarrow> fst (h e s') | (Inr x, s') \<Rightarrow> Inr x)"
  by (simp add: stry_def split: prod.splits sum.splits)




lemma pr_try_result:
  "fst (ParametricRegression_loadModel_try name (w, self)) = Inr r \<longleftrightarrow>
     (\<exists>ds d. r = Loaded d \<and> files w (lookup_tables @ name @ ''.h5'') = Some (H5Datasets ds) \<and>
         map_of ds ''data'' = Some d)"
  by (auto simp: ParametricRegression_loadModel_try_def prog_defs read_file_def log_event_def
      print_ne_opening split: sum.splits option.splits pyfile.splits)

lemma pr_try_encodes:
  "encodes (fst (snd (ParametricRegression_loadModel_try name (w, self)))) = encodes w"
  by (auto simp: ParametricRegression_loadModel_try_def prog_defs read_file_def log_event_def
      print_ne_opening split: sum.splits option.splits pyfile.splits)



lemma pr_loadModel_fst:
  "fst (ParametricRegression_loadModel name (v, obj)) =
     (case fst (ParametricRegression_loadModel_try name (v, obj)) of
        Inr x \<Rightarrow> Inr x
      | Inl e \<Rightarrow>
          if printable v (failure_message
               (lineno (fst (snd (ParametricRegression_loadModel_try name (v, obj))))) e)
          then Inr PyFalse else Inl UnicodeEncodeError)"
proof -
  obtain a b c where x: "ParametricRegression_loadModel_try name (v, obj) = (a, b, c)"
    by (cases "ParametricRegression_loadModel_try name (v, obj)")
  have "encodes b = encodes v"
    using pr_try_encodes [of name v obj] x by simp
  then show ?thesis
    by (simp add: ParametricRegression_loadModel_def stry_fst loading_failed_fst printable_def x
        split: sum.splits)
qed

lemma pr_loadModel_Loaded:
  "fst (ParametricRegression_loadModel name (v, obj)) = Inr (Loaded d) \<longleftrightarrow>
     (\<exists>ds. files v (lookup_tables @ name @ ''.h5'') = Some (H5Datasets ds) \<and>
        map_of ds ''data'' = Some d)"
proof -
  have "fst (ParametricRegression_loadModel name (v, obj)) = Inr (Loaded d) \<longleftrightarrow>
      fst (ParametricRegression_loadModel_try name (v, obj)) = Inr (Loaded d)"
    unfolding pr_loadModel_fst by (simp split: sum.splits)
  then show ?thesis
    by (simp add: pr_try_result)
qed







section \<open>Saving and loading theta\<close>

text \<open>
  C6. After \<open>saveModel(model_name)\<close> has returned, \<open>loadModel(model_name)\<close> run on
  any state with the same files returns the \<open>theta\<close> that was saved.
\<close>

theorem saveModel_loadModel_roundtrip:
  assumes "ParametricRegression_saveModel name (w, self) = (Inr (), s')"
      and "files (fst s'') = files (fst s')"
  shows "\<exists>th. theta self = Some th \<and>
           fst (ParametricRegression_loadModel name s'') = Inr (Loaded th)"
proof -
  from assms(1) obtain th where th: "theta self = Some th"
    and f: "files (fst s') (lookup_tables @ name @ ''.h5'') = Some (H5Datasets [(''data'', th)])"
    by (auto simp: ParametricRegression_saveModel_def prog_defs write_file_def log_event_def
        split: if_splits option.splits)
  have "fst (ParametricRegression_loadModel name (fst s'', snd s'')) = Inr (Loaded th)"
    unfolding pr_loadModel_Loaded using f assms(2) by simp
  with th show ?thesis by simp
qed

theorem saveModel_loadModel_roundtrip_witness:
  "\<exists>s'. ParametricRegression_saveModel ''ne'' (toy_world, pr_new\<lparr>theta := Some toy_voltage\<rparr>) =
           (Inr (), s') \<and>
        fst (ParametricRegression_loadModel ''ne'' s') = Inr (Loaded toy_voltage)"
proof -
  let ?s = "snd (ParametricRegression_saveModel ''ne''
    (toy_world, pr_new\<lparr>theta := Some toy_voltage\<rparr>))"
  have "fst (ParametricRegression_saveModel ''ne'' (toy_world, pr_new\<lparr>theta := Some toy_voltage\<rparr>)) =
      Inr ()"
    by (simp add: ParametricRegression_saveModel_def prog_defs write_file_def toy_world_def pr_new_def)
  then have a: "ParametricRegression_saveModel ''ne''
      (toy_world, pr_new\<lparr>theta := Some toy_voltage\<rparr>) = (Inr (), ?s)"
    by (simp add: prod_eq_iff)
  have b: "fst (ParametricRegression_loadModel ''ne'' ?s) = Inr (Loaded toy_voltage)"
    using saveModel_loadModel_roundtrip [OF a refl] by (simp add: pr_new_def)
  show ?thesis
    using a b by blast
qed

section \<open>The normal equation\<close>

lemma calculateTheta_run:
  assumes "train self = Some tr" and "tr ''data_pb'' = Some X" and "tr ''target'' = Some y"
  shows "ParametricRegression_calculateTheta N (w, self) =
    (case matrix_inverse N (mm (tf_transpose X) X) of
       Inl e \<Rightarrow> (Inl e, (w, self))
     | Inr V \<Rightarrow>
         if ncols V = ncols X \<and> nrows X = nrows y
         then (Inr (), (log_event TfEval w, self\<lparr>theta := Some (mm (mm V (tf_transpose X)) y)\<rparr>))
         else (Inl ValueError, (w, self)))"
  using assms
  by (simp add: ParametricRegression_calculateTheta_def prog_defs tf_matmul_def split: sum.splits)

lemma calculateBias_theta:
  "theta (snd (snd (ParametricRegression_calculateBias s))) = theta (snd s)"
  by (cases s) (auto simp add: ParametricRegression_calculateBias_def prog_defs first_row_def
      split: sum.splits option.splits prod.splits list.splits)

lemma predictWithModel_state:
  "snd (ParametricRegression_predictWithModel N lp s) = s"
  by (cases s) (auto simp add: ParametricRegression_predictWithModel_def prog_defs
      split: sum.splits option.splits prod.splits list.splits)

lemma evaluateModel_state:
  "snd (ParametricRegression_evaluateModel N s) = s"
  by (cases s) (auto simp add: ParametricRegression_evaluateModel_def prog_defs
      ParametricRegression_predictWithModel_def
      split: sum.splits option.splits prod.splits list.splits)

lemma saveModel_theta:
  "theta (snd (snd (ParametricRegression_saveModel name s))) = theta (snd s)"
  by (cases s) (auto simp add: ParametricRegression_saveModel_def prog_defs write_file_def
      split: sum.splits option.splits prod.splits list.splits)


lemma sbind_sreturn: "sbind (sreturn x) f s = f x s"
  by (simp add: sbind_def sreturn_def)

lemma sbind_smodify: "sbind (smodify g) f s = f () (g s)"
  by (simp add: sbind_def smodify_def)

lemma sbind_sget: "sbind (sget g) f s = f (g s) s"
  by (simp add: sbind_def sget_def)

lemma sbind_slift: "sbind (slift r) f s = (case r of Inl e \<Rightarrow> (Inl e, s) | Inr x \<Rightarrow> f x s)"
  by (simp add: sbind_def slift_def split: sum.splits)

text \<open>
  C2. When the constructor returns, \<open>theta\<close> is \<open>V (X\<^sup>T y)\<close>, where \<open>X\<close> is the train
  part of the load profile with a leading column of ones, \<open>y\<close> is the train part
  of the voltage profile and \<open>V\<close> is what the matrix inversion returned for
  \<open>X\<^sup>T X\<close>. The code multiplies as \<open>(V X\<^sup>T) y\<close>; the two products agree.
\<close>

theorem calculateTheta_normal_equation:
  assumes lp: "pr_load_profile a = Some lp" and vp: "pr_voltage_profile a = Some vp"
    and run: "ParametricRegression N a w = (Inr (), w', self)"
    and d: "d = s_train_data (split_profiles (pr_train_percentage a) lp vp)"
    and y: "y = s_train_labels (split_profiles (pr_train_percentage a) lp vp)"
  shows "\<exists>X V. rows X = map (\<lambda>r. 1 # r) (rows d) \<and> ncols X = Suc (ncols d) \<and>
           nrows X = nrows d \<and> nrows d = nrows y \<and>
           matrix_inverse N (mm (tf_transpose X) X) = Inr V \<and>
           theta self = Some (mm V (mm (tf_transpose X) y))"
proof -
  define sp where "sp = split_profiles (pr_train_percentage a) lp vp"
  define X where "X = mk_mat (Suc (ncols d)) (map (\<lambda>r. 1 # r) (rows d))"
  define self0 where "self0 = pr_new\<lparr>
     train := Some [''data'' \<mapsto> d, ''target'' \<mapsto> y, ''data_pb'' \<mapsto> X],
     test := Some [''data'' \<mapsto> s_test_data sp, ''target'' \<mapsto> s_test_labels sp]\<rparr>"
  define k4 :: "real \<Rightarrow> ('a world \<times> pr, unit) prog" where "k4 = (\<lambda>_.
          if pr_save_model a then
            sbind (sget (stamp \<circ> fst)) (\<lambda>t.
            sbind (smodify (\<lambda>s. (fst s, (snd s)\<lparr>pr_model_name := Some (''ne_model_'' @ t)\<rparr>))) (\<lambda>_.
            ParametricRegression_saveModel (''ne_model_'' @ t)))
          else sreturn ())"
  define k3 :: "mat \<Rightarrow> ('a world \<times> pr, unit) prog"
    where "k3 = (\<lambda>_. sbind (ParametricRegression_evaluateModel N) k4)"
  define k2 :: "unit \<Rightarrow> ('a world \<times> pr, unit) prog"
    where "k2 = (\<lambda>_. sbind (ParametricRegression_predictWithModel N (s_test_data sp)) k3)"
  define k1 :: "unit \<Rightarrow> ('a world \<times> pr, unit) prog"
    where "k1 = (\<lambda>_. sbind ParametricRegression_calculateBias k2)"
  have shape: "nrows d = nrows y"
  proof (rule ccontr)
    assume "nrows d \<noteq> nrows y"
    then have "fst (ParametricRegression N a w) = Inl ValueError"
      by (simp add: ParametricRegression_def ParametricRegression_init_def lp vp sbind_sreturn
          sbind_smodify sbind_slift add_bias_column_def d y)
    with run show False by simp
  qed
  have start: "ParametricRegression N a w = sbind (ParametricRegression_calculateTheta N) k1 (w, self0)"
    using shape
    by (simp add: ParametricRegression_def ParametricRegression_init_def lp vp sbind_sreturn
        sbind_smodify sbind_slift add_bias_column_def d y sp_def X_def self0_def
        k1_def k2_def k3_def k4_def)
  from run obtain s1 where c1: "ParametricRegression_calculateTheta N (w, self0) = (Inr (), s1)"
    and r1: "k1 () s1 = (Inr (), (w', self))"
    unfolding start by (elim sbind_success) simp
  have tr: "train self0 = Some [''data'' \<mapsto> d, ''target'' \<mapsto> y, ''data_pb'' \<mapsto> X]"
    by (simp add: self0_def)
  have c1': "(case matrix_inverse N (mm (tf_transpose X) X) of
       Inl e \<Rightarrow> (Inl e, (w, self0))
     | Inr V \<Rightarrow>
         if ncols V = ncols X \<and> nrows X = nrows y
         then (Inr (), (log_event TfEval w, self0\<lparr>theta := Some (mm (mm V (tf_transpose X)) y)\<rparr>))
         else (Inl ValueError, (w, self0))) = (Inr (), s1)"
    using calculateTheta_run [OF tr, of X y N w] c1 by simp
  then obtain V where inv: "matrix_inverse N (mm (tf_transpose X) X) = Inr V"
    and sh: "ncols V = ncols X" "nrows X = nrows y"
    and s1: "theta (snd s1) = Some (mm (mm V (tf_transpose X)) y)"
    by (auto split: sum.splits if_splits)
  from r1 obtain s2 where b: "ParametricRegression_calculateBias s1 = (Inr (), s2)"
    and r2: "k2 () s2 = (Inr (), (w', self))"
    unfolding k1_def by (elim sbind_success) simp
  have t2: "theta (snd s2) = theta (snd s1)"
    using calculateBias_theta [of s1] b by simp
  from r2 obtain x3 s3 where p: "ParametricRegression_predictWithModel N (s_test_data sp) s2 = (Inr x3, s3)"
    and r3: "k3 x3 s3 = (Inr (), (w', self))"
    unfolding k2_def by (elim sbind_success)
  have t3: "s3 = s2"
    using predictWithModel_state [of N "s_test_data sp" s2] p by simp
  from r3 obtain x4 s4 where e: "ParametricRegression_evaluateModel N s3 = (Inr x4, s4)"
    and r4: "k4 x4 s4 = (Inr (), (w', self))"
    unfolding k3_def by (elim sbind_success)
  have t4: "s4 = s3"
    using evaluateModel_state [of N s3] e by simp
  have t5: "theta self = theta (snd s4)"
  proof (cases "pr_save_model a")
    case False
    with r4 show ?thesis by (simp add: k4_def sreturn_def)
  next
    case True
    with r4 have "ParametricRegression_saveModel (''ne_model_'' @ stamp (fst s4))
        (fst s4, (snd s4)\<lparr>pr_model_name := Some (''ne_model_'' @ stamp (fst s4))\<rparr>) = (Inr (), (w', self))"
      by (simp add: k4_def sbind_sget sbind_smodify)
    then show ?thesis
      using saveModel_theta [of "''ne_model_'' @ stamp (fst s4)"
          "(fst s4, (snd s4)\<lparr>pr_model_name := Some (''ne_model_'' @ stamp (fst s4))\<rparr>)"]
      by simp
  qed
  have assoc: "mm (mm V (tf_transpose X)) y = mm V (mm (tf_transpose X) y)"
    by (rule mm_assoc) (simp_all add: sh)
  have "theta self = Some (mm V (mm (tf_transpose X) y))"
    by (simp add: t5 t4 t3 t2 s1 assoc)
  moreover have "rows X = map (\<lambda>r. 1 # r) (rows d)" "ncols X = Suc (ncols d)" "nrows X = nrows d"
    using sh shape by (simp_all add: X_def mk_mat_def)
  ultimately show ?thesis using inv shape by blast
qed


lemma toy_pr_run: "fst (ParametricRegression toy_numerics toy_pr_args toy_world) = Inr ()"
  by code_simp

theorem calculateTheta_normal_equation_witness:
  "\<exists>X V. rows X = [[1, 10], [1, 20]] \<and>
     matrix_inverse toy_numerics (mm (tf_transpose X) X) = Inr V \<and>
     theta (snd (snd (ParametricRegression toy_numerics toy_pr_args toy_world))) =
       Some (mm V (mm (tf_transpose X) (mk_mat 1 [[1], [2]])))"
proof -
  have sp: "split_profiles (1 / 2) toy_load toy_voltage =
     \<lparr>s_train_data = mk_mat 1 [[10], [20]], s_train_labels = mk_mat 1 [[1], [2]],
      s_test_data = mk_mat 1 [[40]], s_test_labels = mk_mat 1 [[4]]\<rparr>"
    by (simp add: split_profiles_def split_index_def py_int_def mat_slice_def mat_slice_from_def
        py_slice_def py_slice_from_def slice_bound_def mk_mat_def toy_load_def toy_voltage_def)
  have run: "ParametricRegression toy_numerics toy_pr_args toy_world =
      (Inr (), fst (snd (ParametricRegression toy_numerics toy_pr_args toy_world)),
       snd (snd (ParametricRegression toy_numerics toy_pr_args toy_world)))"
    using toy_pr_run by (simp add: prod_eq_iff)
  have "pr_load_profile toy_pr_args = Some toy_load" "pr_voltage_profile toy_pr_args = Some toy_voltage"
    "pr_train_percentage toy_pr_args = 1 / 2"
    by (simp_all add: toy_pr_args_def)
  from calculateTheta_normal_equation [OF this(1,2) run refl refl] this(3) sp
  obtain X V where "rows X = map (\<lambda>r. 1 # r) (rows (mk_mat 1 [[10], [20]]))"
    and "matrix_inverse toy_numerics (mm (tf_transpose X) X) = Inr V"
    and "theta (snd (snd (ParametricRegression toy_numerics toy_pr_args toy_world))) =
       Some (mm V (mm (tf_transpose X) (mk_mat 1 [[1], [2]])))"
    by auto
  then have "rows X = [[1, 10], [1, 20]] \<and>
     matrix_inverse toy_numerics (mm (tf_transpose X) X) = Inr V \<and>
     theta (snd (snd (ParametricRegression toy_numerics toy_pr_args toy_world))) =
       Some (mm V (mm (tf_transpose X) (mk_mat 1 [[1], [2]])))"
    by (simp add: mk_mat_def)
  then show ?thesis by blast
qed

section \<open>The grid search\<close>

lemma grid_lr: "np_arange (1 / 1000) (1 / 10) (1 / 50) = [1/1000, 21/1000, 41/1000, 61/1000, 81/1000]"
  by (simp add: np_arange_def upt_rec [of _ 5] eval_nat_numeral)

lemma grid_hl: "np_arange_int 1 2 1 = [1]" and grid_ld: "np_arange_int 50 60 10 = [50]"
  by (simp_all add: np_arange_int_def)

lemma grid_point_raises:
  "grid_point module_globals cls lp vp lr hl ld s = (Inl (NameError ''TrainANN''), s)"
  by (simp add: grid_point_def global_name_def module_globals_def sbind_def sraise_def)

text \<open>
  C3. With both profiles and \<open>search_type = 'grid'\<close> the constructor appends the
  header row [5, 1, 1] and enters the loops, where the first round reads the
  global name \<open>TrainANN\<close>, which the module does not bind: \<open>NameError\<close> is raised
  with the header as the only row, no network trained and no file written.
\<close>

theorem HyperparamSearch_grid_raises:
  "HyperparamSearch B module_globals cls (Some lp) (Some vp) ''grid'' w =
     (Inl (NameError ''TrainANN''),
      w, \<lparr>solution_matrix = Some [[PyInt 5, PyInt 1, PyInt 1]], params = Some [5, 1, 1],
           runtime = None\<rparr>)"
  by (simp add: HyperparamSearch_def HyperparamSearch_init_def grid_lr grid_hl grid_ld
      grid_point_raises [abs_def] append_row_def hs_new_def
      sbind_def sreturn_def smodify_def sget_def attr_def)

text \<open>
  The loops themselves are as the grid search is meant to be: in a namespace
  that binds \<open>TrainANN\<close> to a class whose \<open>evaluateModel\<close> returns a pair, one
  row is appended per learning rate and the results file is written.
\<close>

lemma grid_search_with_name_bound:
  "fst (HyperparamSearch toy_builtins (''TrainANN'' # module_globals) toy_class (Some toy_load)
     (Some toy_voltage) ''grid'' toy_world) = Inr () \<and>
   solution_matrix (snd (snd (HyperparamSearch toy_builtins (''TrainANN'' # module_globals)
     toy_class (Some toy_load) (Some toy_voltage) ''grid'' toy_world))) =
     Some [[PyInt 5, PyInt 1, PyInt 1],
       [PyFloat (1 / 1000), PyInt 1, PyInt 50, PyFloat 0, PyFloat 0],
       [PyFloat (21 / 1000), PyInt 1, PyInt 50, PyFloat 0, PyFloat 0],
       [PyFloat (41 / 1000), PyInt 1, PyInt 50, PyFloat 0, PyFloat 0],
       [PyFloat (61 / 1000), PyInt 1, PyInt 50, PyFloat 0, PyFloat 0],
       [PyFloat (81 / 1000), PyInt 1, PyInt 50, PyFloat 0, PyFloat 0]]"
  by (simp add: HyperparamSearch_def HyperparamSearch_init_def grid_lr grid_hl grid_ld
      grid_point_def global_name_def in_world_def getitem_def toy_class_def append_row_def
      hs_new_def HyperparamSearch_exportResults_def write_file_def on_world_def py_int_def
      toy_world_def toy_builtins_def
      sbind_def sreturn_def smodify_def sget_def attr_def slift_def)

text \<open>
  C9. With both profiles and any other \<open>search_type\<close> the constructor returns
  with \<open>solution_matrix\<close> the empty list and the world untouched: nothing is
  trained and nothing is written.
\<close>

theorem HyperparamSearch_other_search:
  "search_type \<noteq> ''grid'' \<Longrightarrow>
   HyperparamSearch B G cls (Some lp) (Some vp) search_type w =
     (Inr (), w, \<lparr>solution_matrix = Some [], params = None, runtime = None\<rparr>)"
  by (simp add: HyperparamSearch_def HyperparamSearch_init_def hs_new_def
      sbind_def sreturn_def smodify_def sget_def)

theorem HyperparamSearch_other_search_witness:
  "''random'' \<noteq> ''grid'' \<and>
   HyperparamSearch toy_builtins module_globals toy_class (Some toy_load) (Some toy_voltage)
     ''random'' toy_world =
     (Inr (), toy_world, \<lparr>solution_matrix = Some [], params = None, runtime = None\<rparr>)"
  using HyperparamSearch_other_search [of "''random''" toy_builtins module_globals toy_class
      toy_load toy_voltage toy_world]
  by simp

section \<open>Writing and reading the results file\<close>

lemma split_comma_free:
  "CHR '','' \<notin> set s \<Longrightarrow> split_comma_space acc (s @ t) = split_comma_space (rev s @ acc) t"
proof (induction s arbitrary: acc)
  case Nil
  then show ?case by simp
next
  case (Cons c s)
  then show ?case by (cases "s @ t") auto
qed

lemma split_write_row:
  assumes "\<forall>x\<in>set xs. CHR '','' \<notin> set (str x)" and "xs \<noteq> []"
    and "n = c + int (length xs)"
  shows "split_comma_space acc (write_row str n c xs) = (rev acc @ str (hd xs)) # map str (tl xs)"
  using assms
proof (induction xs arbitrary: acc c)
  case Nil
  then show ?case by simp
next
  case (Cons x xs)
  show ?case
  proof (cases "xs = []")
    case True
    with Cons.prems show ?thesis
      using split_comma_free [of "str x" acc "[]"] by simp
  next
    case False
    have ih: "split_comma_space [] (write_row str n (c + 1) xs) = str (hd xs) # map str (tl xs)"
      using Cons.IH [of "c + 1" "[]"] Cons.prems False by simp
    have "split_comma_space acc (write_row str n c (x # xs)) =
        split_comma_space (rev (str x) @ acc) (CHR '','' # CHR '' '' # write_row str n (c + 1) xs)"
      using Cons.prems False split_comma_free [of "str x" acc] by simp
    also have "\<dots> = (rev acc @ str x) # split_comma_space [] (write_row str n (c + 1) xs)"
      by simp
    finally show ?thesis
      using ih False by (cases xs) simp_all
  qed
qed

lemma set_write_row:
  "set (write_row str n c xs) \<subseteq> (\<Union>x\<in>set xs. set (str x)) \<union> {CHR '','', CHR '' ''}"
  by (induction xs arbitrary: c) auto

lemma py_lines_line:
  "LF \<notin> set l \<Longrightarrow> py_lines acc (l @ LF # t) = (rev acc @ l @ [LF]) # py_lines [] t"
  by (induction l arbitrary: acc) auto

lemma universal_newlines_id: "CR \<notin> set s \<Longrightarrow> universal_newlines s = s"
  by (induction s rule: universal_newlines.induct) auto


lemma each_map:
  "\<forall>x\<in>set xs. f x = Inr (g x) \<Longrightarrow> each f xs = Inr (map g xs)"
  by (induction xs) (simp_all add: ebind_def)

lemma write_row_no_newline:
  assumes "\<forall>x\<in>set xs. clean (str x)"
  shows "LF \<notin> set (write_row str n c xs)" and "CR \<notin> set (write_row str n c xs)"
  using assms set_write_row [of str n c xs] by (auto simp: clean_def LF_def CR_def)

lemma parse_written_row:
  assumes "\<forall>x\<in>set row. clean (py_str B x) \<and> py_float B (py_str B x) = Inr (num_val x)"
    and "row \<noteq> []"
  shows "parse_line B (write_row (py_str B) (int (length row)) 0 row @ [LF]) =
     Inr (map (\<lambda>x. PyFloat (num_val x)) row)"
proof -
  have nl: "LF \<notin> set (write_row (py_str B) (int (length row)) 0 row)"
    using assms(1) by (intro write_row_no_newline) simp
  have "filter (\<lambda>c. c \<noteq> LF) (write_row (py_str B) (int (length row)) 0 row @ [LF]) =
      write_row (py_str B) (int (length row)) 0 row"
    using nl by (auto simp: filter_id_conv)
  moreover have "split_comma_space [] (write_row (py_str B) (int (length row)) 0 row) =
      map (py_str B) row"
    using split_write_row [of row "py_str B" "int (length row)" 0 "[]"] assms
    by (cases row) (simp_all add: clean_def)
  moreover have "each (\<lambda>i. ebind (py_float B i) (\<lambda>x. Inr (PyFloat x))) (map (py_str B) row) =
      Inr (map (\<lambda>x. PyFloat (num_val x)) row)"
    using assms(1) by (induction row) (simp_all add: ebind_def)
  ultimately show ?thesis
    by (simp add: parse_line_def)
qed

lemma lines_written:
  assumes "\<forall>row\<in>set M. \<forall>x\<in>set row. clean (str x)"
  shows "py_lines [] (write_sessions str 0 M) =
     map (\<lambda>row. write_row str (int (length row)) 0 row @ [LF]) M"
  using assms
proof (induction M)
  case Nil
  then show ?case by simp
next
  case (Cons row M)
  have "LF \<notin> set (write_row str (int (length row)) 0 row)"
    using Cons.prems by (intro write_row_no_newline) simp
  then show ?case
    using Cons py_lines_line [of "write_row str (int (length row)) 0 row" "[]"
        "write_sessions str 0 M"]
    by simp
qed

lemma written_no_cr:
  assumes "\<forall>row\<in>set M. \<forall>x\<in>set row. clean (str x)"
  shows "CR \<notin> set (write_sessions str c M)"
  using assms
proof (induction M arbitrary: c)
  case Nil
  then show ?case by simp
next
  case (Cons row M)
  have "CR \<notin> set (write_row str (int (length row)) c row)"
    using Cons.prems by (intro write_row_no_newline) simp
  then show ?case
    using Cons by (simp add: CR_def LF_def)
qed

lemma parse_written:
  assumes "\<forall>row\<in>set M. row \<noteq> [] \<and>
      (\<forall>x\<in>set row. clean (py_str B x) \<and> py_float B (py_str B x) = Inr (num_val x))"
  shows "each (parse_line B) (py_lines [] (universal_newlines (write_sessions (py_str B) 0 M))) =
     Inr (map (map (\<lambda>x. PyFloat (num_val x))) M)"
proof -
  have c: "\<forall>row\<in>set M. \<forall>x\<in>set row. clean (py_str B x)"
    using assms by blast
  have "universal_newlines (write_sessions (py_str B) 0 M) = write_sessions (py_str B) 0 M"
    by (rule universal_newlines_id) (rule written_no_cr [OF c])
  moreover have "each (parse_line B)
      (map (\<lambda>row. write_row (py_str B) (int (length row)) 0 row @ [LF]) M) =
      Inr (map (map (\<lambda>x. PyFloat (num_val x))) M)"
    using assms
  proof (induction M)
    case Nil
    then show ?case by simp
  next
    case (Cons row M)
    have "parse_line B (write_row (py_str B) (int (length row)) 0 row @ [LF]) =
        Inr (map (\<lambda>x. PyFloat (num_val x)) row)"
      using Cons.prems by (intro parse_written_row) simp_all
    then show ?case
      using Cons by (simp add: ebind_def)
  qed
  ultimately show ?thesis
    by (simp add: lines_written [OF c])
qed

lemma split_comma_space_nonempty: "split_comma_space acc t \<noteq> []"
  by (induction acc t rule: split_comma_space.induct) auto

lemma each_length: "each f xs = Inr ys \<Longrightarrow> length ys = length xs"
  by (induction xs arbitrary: ys) (auto simp: ebind_def split: sum.splits)

lemma parse_line_nonempty: "parse_line B line = Inr row \<Longrightarrow> row \<noteq> []"
  using each_length split_comma_space_nonempty unfolding parse_line_def by fastforce

lemma each_all: "each f xs = Inr ys \<Longrightarrow> \<forall>y\<in>set ys. \<exists>x. f x = Inr y"
  by (induction xs arbitrary: ys) (auto simp: ebind_def split: sum.splits)

text \<open>
  Rows are never empty in a solution matrix the class has built: the grid search
  appends rows of three and of five entries, and every row \<open>importResults\<close> reads
  has at least one entry.
\<close>

lemma importResults_rows_nonempty:
  assumes "HyperparamSearch_importResults B rt s = (Inr (), s')"
  shows "\<exists>M. solution_matrix (snd s') = Some M \<and> (\<forall>row\<in>set M. row \<noteq> [])"
  using assms unfolding HyperparamSearch_importResults_def
  by (elim sbind_success)
    (auto simp: smodify_def slift_def dest!: each_all parse_line_nonempty)

text \<open>
  C10. After \<open>exportResults\<close> has written a solution matrix whose rows are not
  empty and whose entries print as numbers do (no comma, no line break) and are
  read back by \<open>float\<close> as their value, \<open>importResults(str(self.runtime))\<close> on the
  same files returns and sets \<open>solution_matrix\<close> to the same rows, every entry
  a float of the same value.
\<close>

theorem export_import_roundtrip:
  assumes exp: "HyperparamSearch_exportResults B (w, self) = (Inr (), s')"
    and same: "files (fst s'') = files (fst s')"
    and rt: "runtime self = Some rt" and M: "solution_matrix self = Some M"
    and ok: "\<forall>row\<in>set M. row \<noteq> [] \<and>
      (\<forall>x\<in>set row. clean (py_str B x) \<and> py_float B (py_str B x) = Inr (num_val x))"
  shows "fst (HyperparamSearch_importResults B (py_str B (PyInt rt)) s'') = Inr () \<and>
     solution_matrix (snd (snd (HyperparamSearch_importResults B (py_str B (PyInt rt)) s''))) =
       Some (map (map (\<lambda>x. PyFloat (num_val x))) M)"
proof -
  have "files (fst s') (results_path (py_str B (PyInt rt))) =
      Some (TextFile (write_sessions (py_str B) 0 M))"
    using exp rt M
    by (auto simp: HyperparamSearch_exportResults_def prog_defs write_file_def
        split: if_splits)
  then have f: "files (fst s'') (''./data/hyperparamsearchresults_'' @ py_str B (PyInt rt) @ ''seconds.txt'') =
      Some (TextFile (write_sessions (py_str B) 0 M))"
    using same by (simp add: results_path_def)
  show ?thesis
    using f parse_written [OF ok]
    by (simp add: HyperparamSearch_importResults_def prog_defs read_file_def log_event_def)
qed

theorem export_import_roundtrip_witness:
  "\<exists>s'. HyperparamSearch_exportResults toy_builtins (toy_world, toy_hs) = (Inr (), s') \<and>
     fst (HyperparamSearch_importResults toy_builtins ''7'' s') = Inr () \<and>
     solution_matrix (snd (snd (HyperparamSearch_importResults toy_builtins ''7'' s'))) =
       Some [[PyFloat 5, PyFloat 1, PyFloat 1], [PyFloat (1 / 2), PyFloat 1, PyFloat 1]]"
proof -
  let ?s = "snd (HyperparamSearch_exportResults toy_builtins (toy_world, toy_hs))"
  have "fst (HyperparamSearch_exportResults toy_builtins (toy_world, toy_hs)) = Inr ()"
    by (simp add: HyperparamSearch_exportResults_def prog_defs write_file_def toy_world_def
        toy_hs_def)
  then have a: "HyperparamSearch_exportResults toy_builtins (toy_world, toy_hs) = (Inr (), ?s)"
    by (simp add: prod_eq_iff)
  have rt: "runtime toy_hs = Some 7" and M: "solution_matrix toy_hs = Some toy_matrix"
    by (simp_all add: toy_hs_def)
  have ok: "\<forall>row\<in>set toy_matrix. row \<noteq> [] \<and>
      (\<forall>x\<in>set row. clean (py_str toy_builtins x) \<and>
         py_float toy_builtins (py_str toy_builtins x) = Inr (num_val x))"
    by (simp add: toy_matrix_def toy_builtins_def clean_def LF_def CR_def)
  have seven: "py_str toy_builtins (PyInt 7) = ''7''"
    by (simp add: toy_builtins_def)
  have "fst (HyperparamSearch_importResults toy_builtins ''7'' ?s) = Inr () \<and>
     solution_matrix (snd (snd (HyperparamSearch_importResults toy_builtins ''7'' ?s))) =
       Some [[PyFloat 5, PyFloat 1, PyFloat 1], [PyFloat (1 / 2), PyFloat 1, PyFloat 1]]"
    using export_import_roundtrip [OF a refl rt M ok] seven
    by (simp add: toy_matrix_def)
  with a show ?thesis by blast
qed

section \<open>The sweep of the timing script\<close>














lemma ext_call_returns:
  assumes "returns (f (ext st))"
  shows "\<exists>v x'. ext_call c f st = (Inr v, st\<lparr>calls := calls st @ [c], ext := x'\<rparr>)"
  using assms by (cases "f (ext st)") (auto simp: returns_def ext_call_def split: sum.splits)









end
